theory Spec2Isabelle
  imports Main
begin

section \<open>Values, records and readers\<close>

text \<open>
  The JavaScript values that travel through the proxy: responses of the remote
  call, options, scopes, the data of a record. Numbers are integers here; no
  definition below does arithmetic on them.
\<close>

datatype jsval =
    Undefined
  | Null
  | Bool bool
  | Num int
  | Str string
  | Arr "jsval list"
  | Obj "(string \<times> jsval) list"

text \<open>JavaScript truthiness, as used by \<^verbatim>\<open>!x\<close> and \<^verbatim>\<open>x || y\<close>.\<close>

fun truthy :: "jsval \<Rightarrow> bool" where
  "truthy Undefined = False"
| "truthy Null = False"
| "truthy (Bool b) = b"
| "truthy (Num n) = (n \<noteq> 0)"
| "truthy (Str s) = (s \<noteq> [])"
| "truthy (Arr xs) = True"
| "truthy (Obj ps) = True"

text \<open>A reference to a function that the proxy only calls or passes on.\<close>

datatype fn = Fn string

text \<open>
  The values an evaluation can throw. \<open>Exception msg\<close> is the object made by
  \<^verbatim>\<open>new Exception(msg)\<close>; \<open>ReferenceError x\<close> is raised by reading the
  undeclared identifier \<open>x\<close>, \<open>TypeError\<close> by calling or indexing a value
  that does not allow it.
\<close>

datatype error =
    Exception string
  | ReferenceError string
  | TypeError string

text \<open>
  The global scope, where an identifier that no function declares is looked up.
  The sources read two such identifiers: \<^verbatim>\<open>Exception\<close>, in every
  \<^verbatim>\<open>throw new Exception(...)\<close>, and \<^verbatim>\<open>message\<close>, in the catch blocks of
  \<open>onRead\<close> and \<open>onWrite\<close>. Neither is declared in the sources or built into
  the language.
\<close>

type_synonym globals = "string \<rightharpoonup> jsval"

text \<open>
  What \<^verbatim>\<open>throw new Exception(msg)\<close> throws: the new object when a global
  \<^verbatim>\<open>Exception\<close> exists, the ReferenceError of reading the identifier otherwise.
  Either way the statement throws.
\<close>

definition throw_new_Exception :: "globals \<Rightarrow> string \<Rightarrow> error" where
  "throw_new_Exception g msg =
     (case g ''Exception'' of None \<Rightarrow> ReferenceError ''Exception'' | Some c \<Rightarrow> Exception msg)"

text \<open>
  The four actions of \<^verbatim>\<open>Ext.data.Api.actions\<close> that a request carries, and the
  property name of each.
\<close>

datatype action = Create | Read | Update | Destroy

fun action_name :: "action \<Rightarrow> string" where
  "action_name Create = ''create''"
| "action_name Read = ''read''"
| "action_name Update = ''update''"
| "action_name Destroy = ''destroy''"

text \<open>
  Modelled from the spec: \<^verbatim>\<open>Ext.data.Api.actions\<close> belongs to the host framework
  and is not part of the sources. The spec gives the fixed action-name enumeration
  {read, create, update, destroy}.
\<close>

definition Api_actions :: "string list" where
  "Api_actions = [''create'', ''read'', ''update'', ''destroy'']"

text \<open>
  Modelled from the spec: \<^verbatim>\<open>Ext.data.Api.isAction\<close> belongs to the host framework
  and is not part of the sources. The spec gives a validity check over the fixed
  enumeration.
\<close>

definition isAction :: "string \<Rightarrow> bool" where
  "isAction a = (a \<in> set Api_actions)"

text \<open>
  An \<^verbatim>\<open>Ext.data.Record\<close>: its \<open>data\<close> (the field-value mapping) next to the
  framework's own bookkeeping.
\<close>

record ext_record =
  data :: "(string \<times> jsval) list"
  record_id :: jsval
  phantom :: bool
  dirty :: bool

text \<open>
  The reader collaborator. \<open>readRecords\<close> and \<open>readResponse\<close> either throw a
  value (\<open>Inl\<close>) or return a data block, an object given by its properties.
\<close>

type_synonym data_block = "(string \<times> jsval) list"

record reader_meta =
  successProperty :: string
  root :: string

record data_reader =
  meta :: reader_meta
  readRecords :: "jsval \<Rightarrow> jsval + data_block"
  readResponse :: "action \<Rightarrow> jsval \<Rightarrow> jsval + data_block"

text \<open>Reading a property of an object: \<^verbatim>\<open>undefined\<close> when it is not there.\<close>

definition get_property :: "data_block \<Rightarrow> string \<Rightarrow> jsval" where
  "get_property obj p = (case map_of obj p of None \<Rightarrow> Undefined | Some v \<Rightarrow> v)"

section \<open>Ext.ux.data.DataProxy.Request\<close>

record request =
  action :: action
  records :: "ext_record list option"
  params :: jsval
  reader :: data_reader
  callback :: fn
  scope :: jsval
  options :: jsval

definition Request ::
  "action \<Rightarrow> ext_record list option \<Rightarrow> jsval \<Rightarrow> data_reader \<Rightarrow> fn \<Rightarrow> jsval \<Rightarrow> jsval \<Rightarrow> request"
where
  "Request action' records' params' reader' callback' scope' options' =
     \<lparr> request.action = action', records = records', params = params', reader = reader',
       callback = callback', scope = scope', options = options' \<rparr>"

section \<open>Ext.ux.data.DwrProxy.ActionHandler\<close>

text \<open>
  A \<open>getDwrArgsFunction\<close> receives its scope (\<^verbatim>\<open>this\<close>), the request and the
  array of record data, and returns a value.
\<close>

type_synonym args_function = "jsval \<Rightarrow> request \<Rightarrow> jsval list \<Rightarrow> jsval"

text \<open>
  The handler is the config object itself with the defaults filled in
  (\<^verbatim>\<open>Ext.apply(this, config)\<close>), so both have the same fields; \<open>None\<close> is an
  absent (or otherwise falsy) property.
\<close>

record action_handler =
  action :: "string option"
  dwrFunction :: "fn option"
  getDwrArgsFunction :: "args_function option"
  getDwrArgsScope :: "jsval option"

text \<open>\<^verbatim>\<open>defaultGetDwrArgsFunctions.read\<close> and \<^verbatim>\<open>defaultGetDwrArgsFunctions.write\<close>.\<close>

definition defaultGetDwrArgsFunctions_read :: args_function where
  "defaultGetDwrArgsFunctions_read this request recordDataArray = Arr []"

definition defaultGetDwrArgsFunctions_write :: args_function where
  "defaultGetDwrArgsFunctions_write this request recordDataArray = Arr [Arr recordDataArray]"

text \<open>The global \<^verbatim>\<open>Object\<close>, the default scope.\<close>

definition Object_global :: jsval where
  "Object_global = Str ''Object''"

definition ActionHandler :: "globals \<Rightarrow> action_handler \<Rightarrow> error + action_handler" where
  "ActionHandler g config =
     (case action_handler.action config of
        None \<Rightarrow> Inl (throw_new_Exception g ''\"action\" is not defined.'')
      | Some a \<Rightarrow>
          if a = [] then Inl (throw_new_Exception g ''\"action\" is not defined.'')
          else if \<not> isAction a
            then Inl (throw_new_Exception g (a @ '' is not a valid Ext.data.Api action.''))
          else if dwrFunction config = None then Inl (throw_new_Exception g ''\"dwrFunction\" is not defined.'')
          else
            Inr (config
              \<lparr> getDwrArgsFunction :=
                  (case getDwrArgsFunction config of
                     None \<Rightarrow>
                       if a = ''read'' then Some defaultGetDwrArgsFunctions_read
                       else Some defaultGetDwrArgsFunctions_write
                   | Some f \<Rightarrow> Some f),
                getDwrArgsScope :=
                  (case getDwrArgsScope config of
                     None \<Rightarrow> Some Object_global
                   | Some s \<Rightarrow> Some s) \<rparr>))"

section \<open>Ext.ux.data.DwrProxy\<close>

text \<open>
  The config of the proxy, as far as the constructor reads it; \<open>None\<close> is an
  absent map.
\<close>

record proxy_config =
  apiActionToHandlerMap :: "(string \<rightharpoonup> action_handler) option"

text \<open>
  The constructed proxy: its own map of handlers, and the value the constructor
  stores under \<^verbatim>\<open>config.api\<close> before it hands the config to the constructor of
  \<^verbatim>\<open>Ext.data.DataProxy\<close>. That constructor belongs to the host framework; what it
  does is not modelled.
\<close>

record dwr_proxy =
  apiActionToHandlerMap :: "string \<rightharpoonup> action_handler"
  config_api :: "string \<rightharpoonup> action_handler"

text \<open>
  The body of \<^verbatim>\<open>Ext.iterate(Ext.data.Api.actions, function(action) {...})\<close>:
  the actions still to visit, and the map built so far.
\<close>

fun iterate_actions ::
  "globals \<Rightarrow> (string \<rightharpoonup> action_handler) \<Rightarrow> string list \<Rightarrow> (string \<rightharpoonup> action_handler)
     \<Rightarrow> error + (string \<rightharpoonup> action_handler)"
where
  "iterate_actions g cfg [] acc = Inr acc"
| "iterate_actions g cfg (a # as) acc =
     (case cfg a of
        None \<Rightarrow> iterate_actions g cfg as acc
      | Some actionHandlerConfig \<Rightarrow>
          (case ActionHandler g (actionHandlerConfig\<lparr>action_handler.action := Some a\<rparr>) of
             Inl e \<Rightarrow> Inl e
           | Inr h \<Rightarrow> iterate_actions g cfg as (acc(a \<mapsto> h))))"

definition DwrProxy :: "globals \<Rightarrow> proxy_config option \<Rightarrow> error + dwr_proxy" where
  "DwrProxy g config =
     (case config of
        None \<Rightarrow> Inl (throw_new_Exception g ''\"apiActionToHandlerMap\" is not defined within config.'')
      | Some c \<Rightarrow>
          (case proxy_config.apiActionToHandlerMap c of
             None \<Rightarrow> Inl (throw_new_Exception g ''\"apiActionToHandlerMap\" is not defined within config.'')
           | Some cfg \<Rightarrow>
               (case iterate_actions g cfg Api_actions Map.empty of
                  Inl e \<Rightarrow> Inl e
                | Inr m \<Rightarrow> Inr \<lparr> dwr_proxy.apiActionToHandlerMap = m, config_api = m \<rparr>)))"

text \<open>
  Modelled from the spec: \<^verbatim>\<open>Ext.pluck\<close> belongs to the host framework and is not
  part of the sources. The spec extracts one payload per record, each the record's
  own data fields, and none when the records are absent.
\<close>

definition getRecordDataArray :: "ext_record list option \<Rightarrow> jsval list" where
  "getRecordDataArray records' =
     (case records' of None \<Rightarrow> [] | Some rs \<Rightarrow> map (\<lambda>r. Obj (data r)) rs)"

text \<open>
  What \<open>doRequest\<close> hands to the remote function: the values of the argument
  array, and last the object made by \<open>createCallback\<close> for the request.
\<close>

datatype dwr_argument = Value jsval | CallbackObject request

record dwr_call =
  remote_function :: fn
  arguments :: "dwr_argument list"

definition doRequest ::
  "globals \<Rightarrow> dwr_proxy \<Rightarrow> action \<Rightarrow> ext_record list option \<Rightarrow> jsval \<Rightarrow> data_reader \<Rightarrow> fn \<Rightarrow> jsval \<Rightarrow> jsval
     \<Rightarrow> error + dwr_call"
where
  "doRequest g this action' records' params' reader' callback' scope' options' =
     (let request = Request action' records' params' reader' callback' scope' options' in
      case dwr_proxy.apiActionToHandlerMap this (action_name action') of
        None \<Rightarrow> Inl (throw_new_Exception g (''No API Action Handler defined for action: '' @ action_name action'))
      | Some apiActionHandler \<Rightarrow>
          (case getDwrArgsFunction apiActionHandler of
             None \<Rightarrow> Inl (TypeError ''getDwrArgsFunction is undefined'')
           | Some f \<Rightarrow>
               (let result =
                      f (case getDwrArgsScope apiActionHandler of None \<Rightarrow> Undefined | Some s \<Rightarrow> s)
                        request (getRecordDataArray records');
                    dwrArgs = (if truthy result then result else Arr [])
                in case dwrArgs of
                     Arr xs \<Rightarrow>
                       (case dwrFunction apiActionHandler of
                          None \<Rightarrow> Inl (TypeError ''dwrFunction is undefined'')
                        | Some dwr \<Rightarrow>
                            Inr \<lparr> remote_function = dwr,
                                  arguments = map Value xs @ [CallbackObject request] \<rparr>)
                   | _ \<Rightarrow> Inl (TypeError ''dwrArgs.push is not a function''))))"

section \<open>Completion of a request\<close>

text \<open>
  What a completion does that the outside can see, in order: the events fired on
  the proxy (whose first argument, the proxy itself, is left out) and the calls of
  the request's callback with its scope and three arguments.
  Listeners of the events and the callback belong to the caller; they are taken to
  return normally.
\<close>

datatype event_detail =
    NullDetail
  | RecordsDetail "ext_record list option"
  | ExceptionDetail jsval

datatype event =
    fireEvent_exception string action jsval jsval event_detail
  | fireEvent_load request jsval
  | fireEvent_write action jsval data_block "ext_record list option" jsval
  | callback_call fn jsval jsval jsval jsval

record outcome =
  events :: "event list"
  thrown :: "error option"

definition handleResponseException :: "request \<Rightarrow> jsval \<Rightarrow> jsval \<Rightarrow> outcome" where
  "handleResponseException request response exception =
     \<lparr> events =
         [fireEvent_exception ''response'' (request.action request) (options request) response
            (ExceptionDetail exception),
          callback_call (callback request) (scope request) Null (options request) (Bool False)],
       thrown = None \<rparr>"

text \<open>
  In the \<^verbatim>\<open>catch\<close> blocks of \<open>onRead\<close> and \<open>onWrite\<close> the identifier
  \<^verbatim>\<open>message\<close> is neither a parameter nor a local variable, so it is read from the
  global scope: a ReferenceError when no such global exists.
\<close>

definition onRead :: "globals \<Rightarrow> request \<Rightarrow> jsval \<Rightarrow> outcome" where
  "onRead g request response =
     (case readRecords (reader request) response of
        Inl e \<Rightarrow>
          (case g ''message'' of
             None \<Rightarrow> \<lparr> events = [], thrown = Some (ReferenceError ''message'') \<rparr>
           | Some message \<Rightarrow> handleResponseException request message e)
      | Inr readDataBlock \<Rightarrow>
          (let success = get_property readDataBlock (successProperty (meta (reader request))) in
           \<lparr> events =
               [if success = Bool False
                then fireEvent_exception ''remote'' (request.action request) (options request) response
                       NullDetail
                else fireEvent_load request (options request),
                callback_call (callback request) (scope request) (Obj readDataBlock)
                  (options request) success],
             thrown = None \<rparr>))"

definition onWrite :: "globals \<Rightarrow> request \<Rightarrow> jsval \<Rightarrow> outcome" where
  "onWrite g request response =
     (case readResponse (reader request) (request.action request) response of
        Inl e \<Rightarrow>
          (case g ''message'' of
             None \<Rightarrow> \<lparr> events = [], thrown = Some (ReferenceError ''message'') \<rparr>
           | Some message \<Rightarrow> handleResponseException request message e)
      | Inr readDataBlock \<Rightarrow>
          (let success = get_property readDataBlock (successProperty (meta (reader request)));
               readRecords' = get_property readDataBlock (root (meta (reader request))) in
           \<lparr> events =
               [if success = Bool False
                then fireEvent_exception ''remote'' (request.action request) (options request) response
                       (RecordsDetail (records request))
                else fireEvent_write (request.action request) readRecords' readDataBlock
                       (records request) (options request),
                callback_call (callback request) (scope request) readRecords' response success],
             thrown = None \<rparr>))"

text \<open>
  \<open>createCallback\<close> returns an object with two functions; the remote call
  completes by calling one of them.
\<close>

datatype completion =
    via_callback jsval
  | via_exceptionHandler jsval jsval

fun createCallback :: "globals \<Rightarrow> request \<Rightarrow> completion \<Rightarrow> outcome" where
  "createCallback g request (via_callback response) =
     (if request.action request = Read then onRead g request response
      else onWrite g request response)"
| "createCallback g request (via_exceptionHandler message exception) =
     handleResponseException request message exception"

section \<open>Observations on an outcome\<close>

fun is_callback_call :: "event \<Rightarrow> bool" where
  "is_callback_call (callback_call f s a b c) = True"
| "is_callback_call e = False"

fun is_remote_exception :: "event \<Rightarrow> bool" where
  "is_remote_exception (fireEvent_exception kind a opts response detail) = (kind = ''remote'')"
| "is_remote_exception e = False"

text \<open>How often an outcome called the callback of the request.\<close>

definition callback_calls :: "outcome \<Rightarrow> nat" where
  "callback_calls out = length (filter is_callback_call (events out))"

section \<open>Example collaborators\<close>

text \<open>
  A reader in the manner of \<^verbatim>\<open>Ext.data.JsonReader\<close>, configured as the server-side
  \<^verbatim>\<open>JsonReaderResponse\<close> asks: the root is \<^verbatim>\<open>objectsToConvertToRecords\<close>, the
  success property \<^verbatim>\<open>success\<close>. It accepts an object as its own data block and
  throws on anything else.
\<close>

definition json_reader :: data_reader where
  "json_reader =
     \<lparr> meta = \<lparr> successProperty = ''success'', root = ''objectsToConvertToRecords'' \<rparr>,
       readRecords =
         (\<lambda>response. case response of Obj ps \<Rightarrow> Inr ps | _ \<Rightarrow> Inl (Str ''response is not an object'')),
       readResponse =
         (\<lambda>a response. case response of Obj ps \<Rightarrow> Inr ps | _ \<Rightarrow> Inl (Str ''response is not an object'')) \<rparr>"

definition read_request :: request where
  "read_request =
     Request Read None (Obj [(''start'', Num 0), (''limit'', Num 25)]) json_reader
       (Fn ''loadRecords'') (Str ''store'') (Obj [(''add'', Bool False)])"

definition person_record :: ext_record where
  "person_record =
     \<lparr> data = [(''name'', Str ''Ada'')], record_id = Num 7, phantom = False, dirty = True \<rparr>"

definition update_request :: request where
  "update_request =
     Request Update (Some [person_record]) Null json_reader
       (Fn ''onWriteRecords'') (Str ''store'') (Obj [])"

text \<open>
  Handler configs as a caller writes them: the remote function alone, so that the
  default argument functions apply. The last one lacks even the remote function.
\<close>

definition read_handler_config :: action_handler where
  "read_handler_config =
     \<lparr> action_handler.action = None, dwrFunction = Some (Fn ''DwrInterface.read''),
       getDwrArgsFunction = None, getDwrArgsScope = None \<rparr>"

definition update_handler_config :: action_handler where
  "update_handler_config =
     \<lparr> action_handler.action = None, dwrFunction = Some (Fn ''DwrInterface.update''),
       getDwrArgsFunction = None, getDwrArgsScope = None \<rparr>"

definition unusable_handler_config :: action_handler where
  "unusable_handler_config =
     \<lparr> action_handler.action = None, dwrFunction = None,
       getDwrArgsFunction = None, getDwrArgsScope = None \<rparr>"

definition read_only_config :: proxy_config where
  "read_only_config = \<lparr> proxy_config.apiActionToHandlerMap = Some [''read'' \<mapsto> read_handler_config] \<rparr>"

definition update_only_config :: proxy_config where
  "update_only_config = \<lparr> proxy_config.apiActionToHandlerMap = Some [''update'' \<mapsto> update_handler_config] \<rparr>"

definition read_and_load_config :: proxy_config where
  "read_and_load_config =
     \<lparr> proxy_config.apiActionToHandlerMap =
         Some [''read'' \<mapsto> read_handler_config, ''load'' \<mapsto> unusable_handler_config] \<rparr>"

definition empty_config :: proxy_config where
  "empty_config = \<lparr> proxy_config.apiActionToHandlerMap = Some Map.empty \<rparr>"

section \<open>Construction of an action handler\<close>

text \<open>
  Claim C7. Constructing an ActionHandler raises exactly when the configuration is
  invalid: the action is missing, the action is not one of read, create, update and
  destroy, or the remote function is missing. A configuration with a listed action
  and a remote function constructs a handler.
\<close>

theorem ActionHandler_raises_iff_invalid:
  "((\<exists>msg. ActionHandler g config = Inl (throw_new_Exception g msg)) \<longleftrightarrow>
      (action_handler.action config = None
       \<or> (\<exists>a. action_handler.action config = Some a
               \<and> a \<notin> {''read'', ''create'', ''update'', ''destroy''})
       \<or> dwrFunction config = None))
   \<and> ((\<exists>h. ActionHandler g config = Inr h) \<longleftrightarrow>
      (\<exists>a. action_handler.action config = Some a
            \<and> a \<in> {''read'', ''create'', ''update'', ''destroy''})
       \<and> dwrFunction config \<noteq> None)"
  by (cases "action_handler.action config")
     (auto simp: ActionHandler_def isAction_def Api_actions_def)

theorem ActionHandler_raises_iff_invalid_witness:
  "(\<exists>h. ActionHandler Map.empty
          \<lparr> action_handler.action = Some ''destroy'', dwrFunction = Some (Fn ''DwrInterface.destroy''),
            getDwrArgsFunction = None, getDwrArgsScope = None \<rparr> = Inr h)
   \<and> (\<exists>msg. ActionHandler Map.empty
          \<lparr> action_handler.action = Some ''load'', dwrFunction = Some (Fn ''DwrInterface.read''),
            getDwrArgsFunction = None, getDwrArgsScope = None \<rparr> = Inl (throw_new_Exception Map.empty msg))"
  using ActionHandler_raises_iff_invalid
          [of Map.empty
              "\<lparr> action_handler.action = Some ''destroy'', dwrFunction = Some (Fn ''DwrInterface.destroy''),
                 getDwrArgsFunction = None, getDwrArgsScope = None \<rparr>"]
        ActionHandler_raises_iff_invalid
          [of Map.empty
              "\<lparr> action_handler.action = Some ''load'', dwrFunction = Some (Fn ''DwrInterface.read''),
                 getDwrArgsFunction = None, getDwrArgsScope = None \<rparr>"]
  by simp

lemma action_name_in_Api_actions: "action_name a \<in> set Api_actions"
  by (cases a) (simp_all add: Api_actions_def)

lemma action_name_read: "(action_name a = ''read'') = (a = Read)"
  by (cases a) simp_all

text \<open>
  A handler made from a config without an argument function keeps the remote
  function of the config and takes the default for its action.
\<close>

lemma ActionHandler_default_arguments:
  assumes "ActionHandler g (hc\<lparr>action_handler.action := Some (action_name a)\<rparr>) = Inr h"
    and "getDwrArgsFunction hc = None"
  shows "dwrFunction h = dwrFunction hc \<and> dwrFunction hc \<noteq> None
         \<and> getDwrArgsFunction h =
             Some (if a = Read then defaultGetDwrArgsFunctions_read
                   else defaultGetDwrArgsFunctions_write)"
  using assms
  by (auto simp: ActionHandler_def action_name_read split: if_splits)

section \<open>Construction of the proxy\<close>

text \<open>
  The loop over the actions: what the finished map holds under a key, that a key
  outside the visited actions is never read, and which keys the map can have.
\<close>

lemma iterate_actions_empty: "iterate_actions g Map.empty as acc = Inr acc"
  by (induction as) simp_all

lemma iterate_actions_lookup:
  "iterate_actions g cfg as acc = Inr m \<Longrightarrow>
   m k = (if k \<in> set as
          then (case cfg k of
                  None \<Rightarrow> acc k
                | Some hc \<Rightarrow>
                    (case ActionHandler g (hc\<lparr>action_handler.action := Some k\<rparr>) of
                       Inl e \<Rightarrow> None | Inr h \<Rightarrow> Some h))
          else acc k)"
proof (induction as arbitrary: acc)
  case Nil
  then show ?case by simp
next
  case (Cons a as)
  show ?case
  proof (cases "cfg a")
    case None
    with Cons.prems have "iterate_actions g cfg as acc = Inr m" by simp
    from Cons.IH [OF this] None show ?thesis by auto
  next
    case (Some hc)
    with Cons.prems obtain h where
      h: "ActionHandler g (hc\<lparr>action_handler.action := Some a\<rparr>) = Inr h"
      and rest: "iterate_actions g cfg as (acc(a \<mapsto> h)) = Inr m"
      by (auto split: sum.splits)
    from Cons.IH [OF rest] Some h show ?thesis by (auto split: option.splits sum.splits)
  qed
qed

lemma iterate_actions_configured:
  assumes "iterate_actions g cfg as acc = Inr m" and "k \<in> set as" and "cfg k = Some hc"
  shows "\<exists>h. ActionHandler g (hc\<lparr>action_handler.action := Some k\<rparr>) = Inr h \<and> m k = Some h"
  using assms
proof (induction as arbitrary: acc)
  case Nil
  then show ?case by simp
next
  case (Cons a as)
  show ?case
  proof (cases "cfg a")
    case None
    with Cons.prems have rest: "iterate_actions g cfg as acc = Inr m" and "k \<in> set as"
      by auto
    then show ?thesis using Cons.IH Cons.prems(3) by blast
  next
    case (Some hc')
    with Cons.prems obtain h where
      h: "ActionHandler g (hc'\<lparr>action_handler.action := Some a\<rparr>) = Inr h"
      and rest: "iterate_actions g cfg as (acc(a \<mapsto> h)) = Inr m"
      by (auto split: sum.splits)
    show ?thesis
    proof (cases "k \<in> set as")
      case True
      with rest Cons.IH Cons.prems(3) show ?thesis by blast
    next
      case False
      with Cons.prems(2) have "k = a" by simp
      with Some Cons.prems(3) have "hc' = hc" by simp
      from iterate_actions_lookup [OF rest, of k] False \<open>k = a\<close>
      have "m k = Some h" by simp
      with h \<open>k = a\<close> \<open>hc' = hc\<close> show ?thesis by simp
    qed
  qed
qed

lemma iterate_actions_other_key:
  "k \<notin> set as \<Longrightarrow> iterate_actions g (cfg(k \<mapsto> v)) as acc = iterate_actions g cfg as acc"
  by (induction as arbitrary: acc) (auto split: option.splits sum.splits)

lemma iterate_actions_dom:
  assumes "iterate_actions g cfg as Map.empty = Inr m"
  shows "dom m \<subseteq> set as"
proof
  fix k assume "k \<in> dom m"
  then have "m k \<noteq> None" by auto
  with iterate_actions_lookup [OF assms, of k] show "k \<in> set as"
    by (auto split: if_splits)
qed

lemma DwrProxy_read_only_config:
  "DwrProxy Map.empty (Some read_only_config) =
     Inr \<lparr> dwr_proxy.apiActionToHandlerMap =
             [''read'' \<mapsto>
                \<lparr> action_handler.action = Some ''read'', dwrFunction = Some (Fn ''DwrInterface.read''),
                  getDwrArgsFunction = Some defaultGetDwrArgsFunctions_read,
                  getDwrArgsScope = Some Object_global \<rparr>],
           config_api =
             [''read'' \<mapsto>
                \<lparr> action_handler.action = Some ''read'', dwrFunction = Some (Fn ''DwrInterface.read''),
                  getDwrArgsFunction = Some defaultGetDwrArgsFunctions_read,
                  getDwrArgsScope = Some Object_global \<rparr>] \<rparr>"
  by (simp add: DwrProxy_def read_only_config_def read_handler_config_def Api_actions_def
        ActionHandler_def isAction_def)

lemma DwrProxy_update_only_config:
  "DwrProxy Map.empty (Some update_only_config) =
     Inr \<lparr> dwr_proxy.apiActionToHandlerMap =
             [''update'' \<mapsto>
                \<lparr> action_handler.action = Some ''update'', dwrFunction = Some (Fn ''DwrInterface.update''),
                  getDwrArgsFunction = Some defaultGetDwrArgsFunctions_write,
                  getDwrArgsScope = Some Object_global \<rparr>],
           config_api =
             [''update'' \<mapsto>
                \<lparr> action_handler.action = Some ''update'', dwrFunction = Some (Fn ''DwrInterface.update''),
                  getDwrArgsFunction = Some defaultGetDwrArgsFunctions_write,
                  getDwrArgsScope = Some Object_global \<rparr>] \<rparr>"
  by (simp add: DwrProxy_def update_only_config_def update_handler_config_def Api_actions_def
        ActionHandler_def isAction_def)

text \<open>
  Claim C3, as the spec states it, asks construction to fail also for a map that is
  present but empty. The guard of the constructor tests only that the config and
  its map are there, and an empty object passes it: construction goes through and
  the proxy holds an empty map of handlers.
\<close>

theorem DwrProxy_empty_map_constructs:
  "DwrProxy Map.empty (Some empty_config) =
     Inr \<lparr> dwr_proxy.apiActionToHandlerMap = Map.empty, config_api = Map.empty \<rparr>"
  by (simp add: DwrProxy_def empty_config_def Api_actions_def)

text \<open>
  Claim C3, amended. Construction raises the configuration error when the config
  or its per-action map is absent, and then there is no proxy. With a map that is
  present but empty the constructor raises nothing: the proxy it makes has an empty
  map of handlers, and every request on it raises the error of an unconfigured
  action.
\<close>

theorem DwrProxy_map_absent_or_empty:
  "DwrProxy g None = Inl (throw_new_Exception g ''\"apiActionToHandlerMap\" is not defined within config.'')
   \<and> (proxy_config.apiActionToHandlerMap c = None \<longrightarrow>
        DwrProxy g (Some c) =
          Inl (throw_new_Exception g ''\"apiActionToHandlerMap\" is not defined within config.''))
   \<and> (proxy_config.apiActionToHandlerMap c = Some Map.empty \<longrightarrow>
        (\<exists>this. DwrProxy g (Some c) = Inr this
           \<and> dwr_proxy.apiActionToHandlerMap this = Map.empty
           \<and> (\<forall>a recs ps rd cb sc opts.
                 doRequest g this a recs ps rd cb sc opts =
                   Inl (throw_new_Exception g (''No API Action Handler defined for action: '' @ action_name a)))))"
  by (auto simp: DwrProxy_def iterate_actions_empty doRequest_def)

theorem DwrProxy_map_absent_or_empty_witness:
  "DwrProxy Map.empty (Some \<lparr> proxy_config.apiActionToHandlerMap = None \<rparr>) =
     Inl (throw_new_Exception Map.empty ''\"apiActionToHandlerMap\" is not defined within config.'')
   \<and> (\<exists>this. DwrProxy Map.empty (Some empty_config) = Inr this
         \<and> doRequest Map.empty this Read None Null json_reader (Fn ''loadRecords'') (Str ''store'') Null =
             Inl (throw_new_Exception Map.empty ''No API Action Handler defined for action: read''))"
proof -
  have absent:
    "proxy_config.apiActionToHandlerMap
       \<lparr> proxy_config.apiActionToHandlerMap = None \<rparr> = None"
    by simp
  have empty: "proxy_config.apiActionToHandlerMap empty_config = Some Map.empty"
    by (simp add: empty_config_def)
  from DwrProxy_map_absent_or_empty
         [of Map.empty "\<lparr> proxy_config.apiActionToHandlerMap = None \<rparr>"] absent
  have first:
    "DwrProxy Map.empty (Some \<lparr> proxy_config.apiActionToHandlerMap = None \<rparr>) =
       Inl (throw_new_Exception Map.empty ''\"apiActionToHandlerMap\" is not defined within config.'')"
    by blast
  from DwrProxy_map_absent_or_empty [of Map.empty empty_config] empty
  obtain this where built: "DwrProxy Map.empty (Some empty_config) = Inr this"
    and raised: "\<And>a recs ps rd cb sc opts.
      doRequest Map.empty this a recs ps rd cb sc opts =
        Inl (throw_new_Exception Map.empty (''No API Action Handler defined for action: '' @ action_name a))"
    by blast
  from raised [of Read None Null json_reader "Fn ''loadRecords''" "Str ''store''" Null]
  have "doRequest Map.empty this Read None Null json_reader (Fn ''loadRecords'') (Str ''store'') Null =
          Inl (throw_new_Exception Map.empty ''No API Action Handler defined for action: read'')"
    by simp
  with first built show ?thesis by blast
qed

text \<open>
  Claim C9. The constructor visits the four fixed actions only. Every key of the
  map of a constructed proxy is one of read, create, update and destroy. An entry
  of the configuration under any other key is ignored: with it the construction
  ends as without it, in the same error or with the same map of handlers, and the
  map has nothing under that key.
\<close>

theorem DwrProxy_registers_fixed_actions_only:
  "(DwrProxy g (Some config) = Inr this \<longrightarrow>
      dom (dwr_proxy.apiActionToHandlerMap this) \<subseteq> {''read'', ''create'', ''update'', ''destroy''})
   \<and> (k \<notin> {''read'', ''create'', ''update'', ''destroy''} \<longrightarrow>
        proxy_config.apiActionToHandlerMap config = Some cfg \<longrightarrow>
        map_sum id dwr_proxy.apiActionToHandlerMap
          (DwrProxy g (Some (config\<lparr>proxy_config.apiActionToHandlerMap := Some (cfg(k \<mapsto> v))\<rparr>))) =
        map_sum id dwr_proxy.apiActionToHandlerMap (DwrProxy g (Some config)))
   \<and> (k \<notin> {''read'', ''create'', ''update'', ''destroy''} \<longrightarrow>
        DwrProxy g (Some config) = Inr this \<longrightarrow>
        dwr_proxy.apiActionToHandlerMap this k = None)"
proof -
  have keys: "set Api_actions = {''read'', ''create'', ''update'', ''destroy''}"
    by (auto simp: Api_actions_def)
  have dom_ok: "dom (dwr_proxy.apiActionToHandlerMap this) \<subseteq> set Api_actions"
    if "DwrProxy g (Some config) = Inr this"
  proof -
    from that obtain cfg' where
      "iterate_actions g cfg' Api_actions Map.empty = Inr (dwr_proxy.apiActionToHandlerMap this)"
      by (auto simp: DwrProxy_def split: option.splits sum.splits)
    then show ?thesis by (rule iterate_actions_dom)
  qed
  have same:
    "map_sum id dwr_proxy.apiActionToHandlerMap
       (DwrProxy g (Some (config\<lparr>proxy_config.apiActionToHandlerMap := Some (cfg(k \<mapsto> v))\<rparr>))) =
     map_sum id dwr_proxy.apiActionToHandlerMap (DwrProxy g (Some config))"
    if "k \<notin> set Api_actions" and "proxy_config.apiActionToHandlerMap config = Some cfg"
    using that by (simp add: DwrProxy_def iterate_actions_other_key split: sum.splits)
  have absent: "dwr_proxy.apiActionToHandlerMap this k = None"
    if "k \<notin> set Api_actions" and "DwrProxy g (Some config) = Inr this"
    using dom_ok [OF that(2)] that(1) by auto
  from dom_ok same absent show ?thesis
    unfolding keys by blast
qed

theorem DwrProxy_registers_fixed_actions_only_witness:
  "(\<exists>this. DwrProxy Map.empty (Some read_only_config) = Inr this
      \<and> dom (dwr_proxy.apiActionToHandlerMap this) \<subseteq> {''read'', ''create'', ''update'', ''destroy''}
      \<and> dwr_proxy.apiActionToHandlerMap this ''load'' = None)
   \<and> map_sum id dwr_proxy.apiActionToHandlerMap (DwrProxy Map.empty (Some read_and_load_config)) =
     map_sum id dwr_proxy.apiActionToHandlerMap (DwrProxy Map.empty (Some read_only_config))"
proof -
  obtain p where p: "DwrProxy Map.empty (Some read_only_config) = Inr p"
    by (simp add: DwrProxy_read_only_config)
  have other: "''load'' \<notin> {''read'', ''create'', ''update'', ''destroy''}"
    by simp
  have rc: "proxy_config.apiActionToHandlerMap read_only_config =
              Some [''read'' \<mapsto> read_handler_config]"
    by (simp add: read_only_config_def)
  have extended:
    "read_only_config
       \<lparr> proxy_config.apiActionToHandlerMap :=
           Some ([''read'' \<mapsto> read_handler_config](''load'' \<mapsto> unusable_handler_config)) \<rparr> =
     read_and_load_config"
    by (simp add: read_only_config_def read_and_load_config_def)
  note fact =
    DwrProxy_registers_fixed_actions_only
      [of Map.empty read_only_config p "''load''" "[''read'' \<mapsto> read_handler_config]"
          unusable_handler_config]
  from fact p have d:
    "dom (dwr_proxy.apiActionToHandlerMap p) \<subseteq> {''read'', ''create'', ''update'', ''destroy''}"
    by blast
  from fact p other have n: "dwr_proxy.apiActionToHandlerMap p ''load'' = None"
    by blast
  from fact other rc have
    "map_sum id dwr_proxy.apiActionToHandlerMap
       (DwrProxy Map.empty (Some (read_only_config
          \<lparr> proxy_config.apiActionToHandlerMap :=
              Some ([''read'' \<mapsto> read_handler_config](''load'' \<mapsto> unusable_handler_config)) \<rparr>))) =
     map_sum id dwr_proxy.apiActionToHandlerMap (DwrProxy Map.empty (Some read_only_config))"
    by blast
  then have s:
    "map_sum id dwr_proxy.apiActionToHandlerMap (DwrProxy Map.empty (Some read_and_load_config)) =
     map_sum id dwr_proxy.apiActionToHandlerMap (DwrProxy Map.empty (Some read_only_config))"
    unfolding extended .
  from p d n s show ?thesis by blast
qed

section \<open>Requests\<close>

text \<open>
  Claim C6. A request for an action that has no handler in the proxy's map raises
  at once with the message naming the action. Nothing is dispatched: there is no
  call of a remote function, hence no completion handler and no call of the
  caller's callback.
\<close>

theorem doRequest_unconfigured_action:
  assumes "dwr_proxy.apiActionToHandlerMap this (action_name a) = None"
  shows "doRequest g this a recs ps rd cb sc opts =
           Inl (throw_new_Exception g (''No API Action Handler defined for action: '' @ action_name a))
         \<and> (\<forall>call. doRequest g this a recs ps rd cb sc opts \<noteq> Inr call)"
  using assms by (simp add: doRequest_def)

theorem doRequest_unconfigured_action_witness:
  "\<exists>this. DwrProxy Map.empty (Some read_only_config) = Inr this
      \<and> dwr_proxy.apiActionToHandlerMap this (action_name Destroy) = None
      \<and> doRequest Map.empty this Destroy (Some [person_record]) Null json_reader (Fn ''onWriteRecords'')
            (Str ''store'') (Obj []) =
          Inl (throw_new_Exception Map.empty ''No API Action Handler defined for action: destroy'')"
proof -
  obtain this where built: "DwrProxy Map.empty (Some read_only_config) = Inr this"
    and none: "dwr_proxy.apiActionToHandlerMap this (action_name Destroy) = None"
    by (simp add: DwrProxy_read_only_config)
  from doRequest_unconfigured_action [OF none]
  have raised:
    "doRequest Map.empty this Destroy (Some [person_record]) Null json_reader (Fn ''onWriteRecords'')
       (Str ''store'') (Obj []) =
     Inl (throw_new_Exception Map.empty ''No API Action Handler defined for action: destroy'')"
    by simp
  from built none raised show ?thesis by blast
qed

text \<open>
  Claim C8. When the config of the action names no argument function, the remote
  function is called with the completion handler alone for a read, and for a write
  with one argument before it: the array holding, for each outgoing record in
  order, the data of that record and nothing else of it.
\<close>

theorem doRequest_default_arguments:
  assumes "DwrProxy g (Some config) = Inr this"
    and "proxy_config.apiActionToHandlerMap config = Some cfg"
    and "cfg (action_name a) = Some actionHandlerConfig"
    and "getDwrArgsFunction actionHandlerConfig = None"
  shows "\<exists>dwr. dwrFunction actionHandlerConfig = Some dwr
           \<and> doRequest g this a recs ps rd cb sc opts =
               Inr \<lparr> remote_function = dwr,
                     arguments =
                       (if a = Read then []
                        else [Value (Arr (case recs of
                                            None \<Rightarrow> []
                                          | Some rs \<Rightarrow> map (\<lambda>r. Obj (data r)) rs))])
                       @ [CallbackObject (Request a recs ps rd cb sc opts)] \<rparr>"
proof -
  from assms(1,2) have built:
    "iterate_actions g cfg Api_actions Map.empty = Inr (dwr_proxy.apiActionToHandlerMap this)"
    by (auto simp: DwrProxy_def split: sum.splits)
  from iterate_actions_configured [OF built action_name_in_Api_actions assms(3)]
  obtain h where
    h: "ActionHandler g (actionHandlerConfig\<lparr>action_handler.action := Some (action_name a)\<rparr>) = Inr h"
    and registered: "dwr_proxy.apiActionToHandlerMap this (action_name a) = Some h"
    by blast
  from ActionHandler_default_arguments [OF h assms(4)]
  obtain dwr where dwr: "dwrFunction actionHandlerConfig = Some dwr" "dwrFunction h = Some dwr"
    and f: "getDwrArgsFunction h =
              Some (if a = Read then defaultGetDwrArgsFunctions_read
                    else defaultGetDwrArgsFunctions_write)"
    by auto
  have "doRequest g this a recs ps rd cb sc opts =
          Inr \<lparr> remote_function = dwr,
                arguments =
                  (if a = Read then []
                   else [Value (Arr (case recs of
                                       None \<Rightarrow> []
                                     | Some rs \<Rightarrow> map (\<lambda>r. Obj (data r)) rs))])
                  @ [CallbackObject (Request a recs ps rd cb sc opts)] \<rparr>"
    using registered dwr(2) f
    by (simp add: doRequest_def Let_def defaultGetDwrArgsFunctions_read_def
          defaultGetDwrArgsFunctions_write_def getRecordDataArray_def)
  with dwr(1) show ?thesis by blast
qed

theorem doRequest_default_arguments_witness:
  "(\<exists>this. DwrProxy Map.empty (Some read_only_config) = Inr this
      \<and> doRequest Map.empty this Read None Null json_reader (Fn ''loadRecords'') (Str ''store'') Null =
          Inr \<lparr> remote_function = Fn ''DwrInterface.read'',
                arguments =
                  [CallbackObject
                     (Request Read None Null json_reader (Fn ''loadRecords'') (Str ''store'') Null)] \<rparr>)
   \<and> (\<exists>this. DwrProxy Map.empty (Some update_only_config) = Inr this
      \<and> doRequest Map.empty this Update (Some [person_record]) Null json_reader (Fn ''onWriteRecords'')
            (Str ''store'') Null =
          Inr \<lparr> remote_function = Fn ''DwrInterface.update'',
                arguments =
                  [Value (Arr [Obj [(''name'', Str ''Ada'')]]),
                   CallbackObject
                     (Request Update (Some [person_record]) Null json_reader (Fn ''onWriteRecords'')
                        (Str ''store'') Null)] \<rparr>)"
proof -
  obtain p where p: "DwrProxy Map.empty (Some read_only_config) = Inr p"
    by (simp add: DwrProxy_read_only_config)
  obtain q where q: "DwrProxy Map.empty (Some update_only_config) = Inr q"
    by (simp add: DwrProxy_update_only_config)
  have rc: "proxy_config.apiActionToHandlerMap read_only_config =
              Some [''read'' \<mapsto> read_handler_config]"
    by (simp add: read_only_config_def)
  have uc: "proxy_config.apiActionToHandlerMap update_only_config =
              Some [''update'' \<mapsto> update_handler_config]"
    by (simp add: update_only_config_def)
  from doRequest_default_arguments
         [OF p rc, of Read read_handler_config None Null json_reader "Fn ''loadRecords''"
            "Str ''store''" Null]
  have r: "doRequest Map.empty p Read None Null json_reader (Fn ''loadRecords'') (Str ''store'') Null =
          Inr \<lparr> remote_function = Fn ''DwrInterface.read'',
                arguments =
                  [CallbackObject
                     (Request Read None Null json_reader (Fn ''loadRecords'') (Str ''store'') Null)] \<rparr>"
    by (simp add: read_handler_config_def)
  from doRequest_default_arguments
         [OF q uc, of Update update_handler_config "Some [person_record]" Null json_reader
            "Fn ''onWriteRecords''" "Str ''store''" Null]
  have w: "doRequest Map.empty q Update (Some [person_record]) Null json_reader (Fn ''onWriteRecords'')
            (Str ''store'') Null =
          Inr \<lparr> remote_function = Fn ''DwrInterface.update'',
                arguments =
                  [Value (Arr [Obj [(''name'', Str ''Ada'')]]),
                   CallbackObject
                     (Request Update (Some [person_record]) Null json_reader (Fn ''onWriteRecords'')
                        (Str ''store'') Null)] \<rparr>"
    by (simp add: update_handler_config_def person_record_def)
  from p q r w show ?thesis by blast
qed

section \<open>The success channel with a well-formed response\<close>

text \<open>
  Claim C5. On the read success channel, when the reader returns a data block, the
  callback is called under the scope of the request with the data block, the
  options and the success flag, whatever the flag is. Only the event differs: an
  exception event of kind remote (action, options, raw response, null) when the
  flag is exactly false, a load event (request, options) otherwise.
\<close>

theorem createCallback_read_well_formed:
  assumes "request.action request = Read"
    and "readRecords (reader request) response = Inr readDataBlock"
  shows "createCallback g request (via_callback response) =
           \<lparr> events =
               [if get_property readDataBlock (successProperty (meta (reader request))) = Bool False
                then fireEvent_exception ''remote'' (request.action request) (options request)
                       response NullDetail
                else fireEvent_load request (options request),
                callback_call (callback request) (scope request) (Obj readDataBlock)
                  (options request)
                  (get_property readDataBlock (successProperty (meta (reader request))))],
             thrown = None \<rparr>"
  using assms by (simp add: onRead_def Let_def)

theorem createCallback_read_well_formed_witness:
  "createCallback Map.empty read_request (via_callback (Obj [(''success'', Bool False)])) =
     \<lparr> events =
         [fireEvent_exception ''remote'' Read (Obj [(''add'', Bool False)])
            (Obj [(''success'', Bool False)]) NullDetail,
          callback_call (Fn ''loadRecords'') (Str ''store'') (Obj [(''success'', Bool False)])
            (Obj [(''add'', Bool False)]) (Bool False)],
       thrown = None \<rparr>
   \<and> createCallback Map.empty read_request
         (via_callback (Obj [(''success'', Bool True), (''objectsToConvertToRecords'', Arr [])])) =
     \<lparr> events =
         [fireEvent_load read_request (Obj [(''add'', Bool False)]),
          callback_call (Fn ''loadRecords'') (Str ''store'')
            (Obj [(''success'', Bool True), (''objectsToConvertToRecords'', Arr [])])
            (Obj [(''add'', Bool False)]) (Bool True)],
       thrown = None \<rparr>"
proof -
  have act: "request.action read_request = Read"
    by (simp add: read_request_def Request_def)
  have p1: "readRecords (reader read_request) (Obj [(''success'', Bool False)]) =
              Inr [(''success'', Bool False)]"
    by (simp add: read_request_def Request_def json_reader_def)
  have p2: "readRecords (reader read_request)
              (Obj [(''success'', Bool True), (''objectsToConvertToRecords'', Arr [])]) =
              Inr [(''success'', Bool True), (''objectsToConvertToRecords'', Arr [])]"
    by (simp add: read_request_def Request_def json_reader_def)
  have fields: "options read_request = Obj [(''add'', Bool False)]"
    "callback read_request = Fn ''loadRecords''" "scope read_request = Str ''store''"
    "successProperty (meta (reader read_request)) = ''success''"
    by (simp_all add: read_request_def Request_def json_reader_def)
  from createCallback_read_well_formed [OF act p1, of Map.empty]
       createCallback_read_well_formed [OF act p2, of Map.empty]
  show ?thesis
    by (simp add: fields act get_property_def)
qed

text \<open>
  Claim C4. On the write success channel (create, update or destroy), when the
  reader returns a data block, the callback is called under the scope of the
  request with the parsed records, the raw response (not the data block) and the
  success flag. When the flag is false, an exception event of kind remote with the
  action, the options, the raw response and the outgoing records is fired in place
  of the write event.
\<close>

theorem createCallback_write_well_formed:
  assumes "request.action request \<in> {Create, Update, Destroy}"
    and "readResponse (reader request) (request.action request) response = Inr readDataBlock"
  shows "createCallback g request (via_callback response) =
           \<lparr> events =
               [if get_property readDataBlock (successProperty (meta (reader request))) = Bool False
                then fireEvent_exception ''remote'' (request.action request) (options request)
                       response (RecordsDetail (records request))
                else fireEvent_write (request.action request)
                       (get_property readDataBlock (root (meta (reader request)))) readDataBlock
                       (records request) (options request),
                callback_call (callback request) (scope request)
                  (get_property readDataBlock (root (meta (reader request)))) response
                  (get_property readDataBlock (successProperty (meta (reader request))))],
             thrown = None \<rparr>"
  using assms by (auto simp: onWrite_def Let_def)

theorem createCallback_write_well_formed_witness:
  "createCallback Map.empty update_request (via_callback (Obj [(''success'', Bool False)])) =
     \<lparr> events =
         [fireEvent_exception ''remote'' Update (Obj []) (Obj [(''success'', Bool False)])
            (RecordsDetail (Some [person_record])),
          callback_call (Fn ''onWriteRecords'') (Str ''store'') Undefined
            (Obj [(''success'', Bool False)]) (Bool False)],
       thrown = None \<rparr>
   \<and> createCallback Map.empty update_request
         (via_callback (Obj [(''success'', Bool True),
                             (''objectsToConvertToRecords'', Arr [Obj [(''name'', Str ''Ada'')]])])) =
     \<lparr> events =
         [fireEvent_write Update (Arr [Obj [(''name'', Str ''Ada'')]])
            [(''success'', Bool True),
             (''objectsToConvertToRecords'', Arr [Obj [(''name'', Str ''Ada'')]])]
            (Some [person_record]) (Obj []),
          callback_call (Fn ''onWriteRecords'') (Str ''store'') (Arr [Obj [(''name'', Str ''Ada'')]])
            (Obj [(''success'', Bool True),
                  (''objectsToConvertToRecords'', Arr [Obj [(''name'', Str ''Ada'')]])])
            (Bool True)],
       thrown = None \<rparr>"
proof -
  have act: "request.action update_request \<in> {Create, Update, Destroy}"
    by (simp add: update_request_def Request_def)
  have p1: "readResponse (reader update_request) (request.action update_request)
              (Obj [(''success'', Bool False)]) = Inr [(''success'', Bool False)]"
    by (simp add: update_request_def Request_def json_reader_def)
  have p2: "readResponse (reader update_request) (request.action update_request)
              (Obj [(''success'', Bool True),
                    (''objectsToConvertToRecords'', Arr [Obj [(''name'', Str ''Ada'')]])]) =
              Inr [(''success'', Bool True),
                   (''objectsToConvertToRecords'', Arr [Obj [(''name'', Str ''Ada'')]])]"
    by (simp add: update_request_def Request_def json_reader_def)
  have fields: "options update_request = Obj []" "request.action update_request = Update"
    "callback update_request = Fn ''onWriteRecords''" "scope update_request = Str ''store''"
    "records update_request = Some [person_record]"
    "successProperty (meta (reader update_request)) = ''success''"
    "root (meta (reader update_request)) = ''objectsToConvertToRecords''"
    by (simp_all add: update_request_def Request_def json_reader_def)
  from createCallback_write_well_formed [OF act p1, of Map.empty]
       createCallback_write_well_formed [OF act p2, of Map.empty]
  show ?thesis
    by (simp add: fields get_property_def)
qed

text \<open>
  Claim C10. When the data block has no success property at all, both channels
  take the success branch: the load or the write event is fired, and the callback
  receives \<^verbatim>\<open>undefined\<close> as its success argument. On either channel an exception
  event of kind remote is fired exactly when the flag is the boolean false.
\<close>

theorem absent_success_flag_is_not_a_failure:
  "(map_of readDataBlock (successProperty (meta (reader request))) = None \<longrightarrow>
      (readRecords (reader request) response = Inr readDataBlock \<longrightarrow>
         onRead g request response =
           \<lparr> events =
               [fireEvent_load request (options request),
                callback_call (callback request) (scope request) (Obj readDataBlock)
                  (options request) Undefined],
             thrown = None \<rparr>)
      \<and> (readResponse (reader request) (request.action request) response = Inr readDataBlock \<longrightarrow>
         onWrite g request response =
           \<lparr> events =
               [fireEvent_write (request.action request)
                  (get_property readDataBlock (root (meta (reader request)))) readDataBlock
                  (records request) (options request),
                callback_call (callback request) (scope request)
                  (get_property readDataBlock (root (meta (reader request)))) response Undefined],
             thrown = None \<rparr>))
   \<and> (readRecords (reader request) response = Inr readDataBlock \<longrightarrow>
        ((\<exists>e \<in> set (events (onRead g request response)). is_remote_exception e) \<longleftrightarrow>
           get_property readDataBlock (successProperty (meta (reader request))) = Bool False))
   \<and> (readResponse (reader request) (request.action request) response = Inr readDataBlock \<longrightarrow>
        ((\<exists>e \<in> set (events (onWrite g request response)). is_remote_exception e) \<longleftrightarrow>
           get_property readDataBlock (successProperty (meta (reader request))) = Bool False))"
  by (simp add: onRead_def onWrite_def Let_def get_property_def)

theorem absent_success_flag_is_not_a_failure_witness:
  "onRead Map.empty read_request (Obj [(''objectsToConvertToRecords'', Arr [])]) =
     \<lparr> events =
         [fireEvent_load read_request (Obj [(''add'', Bool False)]),
          callback_call (Fn ''loadRecords'') (Str ''store'')
            (Obj [(''objectsToConvertToRecords'', Arr [])]) (Obj [(''add'', Bool False)]) Undefined],
       thrown = None \<rparr>
   \<and> onWrite Map.empty update_request (Obj [(''objectsToConvertToRecords'', Arr [])]) =
     \<lparr> events =
         [fireEvent_write Update (Arr []) [(''objectsToConvertToRecords'', Arr [])]
            (Some [person_record]) (Obj []),
          callback_call (Fn ''onWriteRecords'') (Str ''store'') (Arr [])
            (Obj [(''objectsToConvertToRecords'', Arr [])]) Undefined],
       thrown = None \<rparr>"
proof -
  have absent_r:
    "map_of [(''objectsToConvertToRecords'', Arr [])]
       (successProperty (meta (reader read_request))) = None"
    and absent_w:
    "map_of [(''objectsToConvertToRecords'', Arr [])]
       (successProperty (meta (reader update_request))) = None"
    by (simp_all add: read_request_def update_request_def Request_def json_reader_def)
  have parsed_r:
    "readRecords (reader read_request) (Obj [(''objectsToConvertToRecords'', Arr [])]) =
       Inr [(''objectsToConvertToRecords'', Arr [])]"
    and parsed_w:
    "readResponse (reader update_request) (request.action update_request)
       (Obj [(''objectsToConvertToRecords'', Arr [])]) =
       Inr [(''objectsToConvertToRecords'', Arr [])]"
    by (simp_all add: read_request_def update_request_def Request_def json_reader_def)
  have fields:
    "options read_request = Obj [(''add'', Bool False)]"
    "callback read_request = Fn ''loadRecords''" "scope read_request = Str ''store''"
    "options update_request = Obj []" "request.action update_request = Update"
    "callback update_request = Fn ''onWriteRecords''" "scope update_request = Str ''store''"
    "records update_request = Some [person_record]"
    "root (meta (reader update_request)) = ''objectsToConvertToRecords''"
    by (simp_all add: read_request_def update_request_def Request_def json_reader_def)
  from absent_success_flag_is_not_a_failure
         [of "[(''objectsToConvertToRecords'', Arr [])]" read_request
             "Obj [(''objectsToConvertToRecords'', Arr [])]" Map.empty]
       absent_r parsed_r
  have r: "onRead Map.empty read_request (Obj [(''objectsToConvertToRecords'', Arr [])]) =
     \<lparr> events =
         [fireEvent_load read_request (options read_request),
          callback_call (callback read_request) (scope read_request)
            (Obj [(''objectsToConvertToRecords'', Arr [])]) (options read_request) Undefined],
       thrown = None \<rparr>"
    by blast
  from absent_success_flag_is_not_a_failure
         [of "[(''objectsToConvertToRecords'', Arr [])]" update_request
             "Obj [(''objectsToConvertToRecords'', Arr [])]" Map.empty]
       absent_w parsed_w
  have w: "onWrite Map.empty update_request (Obj [(''objectsToConvertToRecords'', Arr [])]) =
     \<lparr> events =
         [fireEvent_write (request.action update_request)
            (get_property [(''objectsToConvertToRecords'', Arr [])]
               (root (meta (reader update_request))))
            [(''objectsToConvertToRecords'', Arr [])]
            (records update_request) (options update_request),
          callback_call (callback update_request) (scope update_request)
            (get_property [(''objectsToConvertToRecords'', Arr [])]
               (root (meta (reader update_request))))
            (Obj [(''objectsToConvertToRecords'', Arr [])]) Undefined],
       thrown = None \<rparr>"
    by blast
  from r w show ?thesis
    by (simp add: fields get_property_def)
qed

section \<open>How often the callback is called\<close>

text \<open>
  The fault channel and a parsed response call the callback once. When the reader
  throws, the callback is called once only if a global named \<^verbatim>\<open>message\<close> happens to
  exist, and not at all otherwise.
\<close>

lemma callback_calls_handleResponseException:
  "callback_calls (handleResponseException request response exception) = 1"
  by (simp add: callback_calls_def handleResponseException_def)

lemma callback_calls_fault_channel:
  "callback_calls (createCallback g request (via_exceptionHandler message exception)) = 1"
  by (simp add: callback_calls_handleResponseException)

lemma callback_calls_parsed_read:
  "request.action request = Read \<Longrightarrow> readRecords (reader request) response = Inr readDataBlock \<Longrightarrow>
   callback_calls (createCallback g request (via_callback response)) = 1"
  by (simp add: callback_calls_def onRead_def Let_def)

lemma callback_calls_parsed_write:
  "request.action request \<noteq> Read \<Longrightarrow>
   readResponse (reader request) (request.action request) response = Inr readDataBlock \<Longrightarrow>
   callback_calls (createCallback g request (via_callback response)) = 1"
  by (simp add: callback_calls_def onWrite_def Let_def)

lemma callback_calls_parse_failure:
  "(request.action request = Read \<and> readRecords (reader request) response = Inl e)
   \<or> (request.action request \<noteq> Read
       \<and> readResponse (reader request) (request.action request) response = Inl e) \<Longrightarrow>
   callback_calls (createCallback g request (via_callback response)) =
     (if g ''message'' = None then 0 else 1)"
  by (auto simp: callback_calls_def onRead_def onWrite_def handleResponseException_def
           split: option.splits)

text \<open>
  Claim C1 asks for exactly one call of the callback per dispatched call, also when
  the reader fails to parse. Here the reader rejects the response of an update and
  of a read: reading \<^verbatim>\<open>message\<close> in the catch block raises a ReferenceError, no
  terminal path runs to its end and the callback is never called.
\<close>

theorem createCallback_parse_failure_loses_callback:
  "createCallback Map.empty update_request (via_callback (Str ''Bad Gateway'')) =
     \<lparr> events = [], thrown = Some (ReferenceError ''message'') \<rparr>
   \<and> callback_calls (createCallback Map.empty update_request (via_callback (Str ''Bad Gateway''))) = 0
   \<and> callback_calls (createCallback Map.empty read_request (via_callback (Str ''Bad Gateway''))) = 0"
  by (simp add: update_request_def read_request_def Request_def json_reader_def onWrite_def
        onRead_def callback_calls_def)

text \<open>
  Claim C2 asks a failed parse to reach the fault handler with the raw response and
  the parse error. On both channels the catch block raises instead: no event is
  fired and the callback is not called. Only when some global \<^verbatim>\<open>message\<close> exists
  does the fault handler run, and then the event carries the value of that global
  in place of the raw response.
\<close>

theorem parse_failure_does_not_reach_fault_handler:
  "onRead Map.empty read_request (Str ''Bad Gateway'') =
     \<lparr> events = [], thrown = Some (ReferenceError ''message'') \<rparr>
   \<and> onWrite Map.empty update_request (Str ''Bad Gateway'') =
     \<lparr> events = [], thrown = Some (ReferenceError ''message'') \<rparr>
   \<and> onRead [''message'' \<mapsto> Str ''left by another script''] read_request (Str ''Bad Gateway'') =
     \<lparr> events =
         [fireEvent_exception ''response'' Read (Obj [(''add'', Bool False)])
            (Str ''left by another script'') (ExceptionDetail (Str ''response is not an object'')),
          callback_call (Fn ''loadRecords'') (Str ''store'') Null (Obj [(''add'', Bool False)])
            (Bool False)],
       thrown = None \<rparr>"
  by (simp add: update_request_def read_request_def Request_def json_reader_def onWrite_def
        onRead_def handleResponseException_def)

end
